theory Spec2Isabelle
  imports Main
begin

section \<open>The HTTP exchange\<close>

text \<open>
  The two Go files of the backend, \<^verbatim>\<open>main.go\<close> (the chat relay) and \<^verbatim>\<open>auth.go\<close> (the
  token gate), are embedded as functions on an explicit response writer. Everything the
  handlers reach outside themselves is an argument: the process environment, the clock,
  the JSON decoder of the request body, the completion client, the HMAC signer and the
  listener that \<^verbatim>\<open>main\<close> starts.
\<close>

subsection \<open>Status codes and methods of net/http\<close>

abbreviation StatusOK :: nat where "StatusOK \<equiv> 200"
abbreviation StatusBadRequest :: nat where "StatusBadRequest \<equiv> 400"
abbreviation StatusUnauthorized :: nat where "StatusUnauthorized \<equiv> 401"
abbreviation StatusMethodNotAllowed :: nat where "StatusMethodNotAllowed \<equiv> 405"
abbreviation StatusInternalServerError :: nat where "StatusInternalServerError \<equiv> 500"
abbreviation MethodPost :: string where "MethodPost \<equiv> ''POST''"

subsection \<open>Credentials and cookies\<close>

text \<open>
  The claims of a credential are the two entries \<^verbatim>\<open>initHandler\<close> puts into its
  \<^verbatim>\<open>jwt.MapClaims\<close>: \<^verbatim>\<open>app\<close> and \<^verbatim>\<open>exp\<close> (Unix seconds).
\<close>

record MapClaims =
  app :: string
  exp :: int

datatype SigningMethod = SigningMethodHS256

record Token =
  Method :: SigningMethod
  Claims :: MapClaims
  Signature :: string
  Valid :: bool

text \<open>
  A token string is the compact serialisation of a token, kept structured (its claims
  and its signature), or any other text, which does not parse as a token.
\<close>

datatype token_string = Compact MapClaims string | Malformed string

datatype SameSite = SameSiteDefaultMode | SameSiteLaxMode | SameSiteStrictMode | SameSiteNoneMode

record Cookie =
  Name :: string
  Value :: token_string
  HttpOnly :: bool
  Secure :: bool
  SameSiteMode :: SameSite
  Path :: string

subsection \<open>Requests and the response writer\<close>

record Request =
  HttpMethod :: string
  Cookies :: "Cookie list"
  Body :: string

text \<open>
  A JSON value as far as the responses need it, and a chunk of response body: a line of
  plain text, or the JSON encoding of a value.
\<close>

datatype json = JString string | JObject "(string \<times> json) list"

datatype chunk = Text string | Json json

text \<open>
  The response writer: the header map, the cookies added by \<^verbatim>\<open>http.SetCookie\<close>, the status
  code once \<^verbatim>\<open>WriteHeader\<close> has run, and the body written so far.
\<close>

record ResponseWriter =
  header :: "string \<rightharpoonup> string"
  setCookies :: "Cookie list"
  status :: "nat option"
  body :: "chunk list"

definition newResponseWriter :: ResponseWriter where
  "newResponseWriter = \<lparr>header = Map.empty, setCookies = [], status = None, body = []\<rparr>"

type_synonym Handler = "ResponseWriter \<Rightarrow> Request \<Rightarrow> ResponseWriter"

definition Header_Set :: "ResponseWriter \<Rightarrow> string \<Rightarrow> string \<Rightarrow> ResponseWriter" where
  "Header_Set w k v = w\<lparr>header := (header w)(k \<mapsto> v)\<rparr>"

text \<open>Only the first \<^verbatim>\<open>WriteHeader\<close> of a response sets its status code.\<close>

definition WriteHeader :: "ResponseWriter \<Rightarrow> nat \<Rightarrow> ResponseWriter" where
  "WriteHeader w code = (if status w = None then w\<lparr>status := Some code\<rparr> else w)"

text \<open>A write before any \<^verbatim>\<open>WriteHeader\<close> sends status 200 first.\<close>

definition Write :: "ResponseWriter \<Rightarrow> chunk \<Rightarrow> ResponseWriter" where
  "Write w c = (let w' = WriteHeader w StatusOK in w'\<lparr>body := body w' @ [c]\<rparr>)"

definition SetCookie :: "ResponseWriter \<Rightarrow> Cookie \<Rightarrow> ResponseWriter" where
  "SetCookie w c = w\<lparr>setCookies := setCookies w @ [c]\<rparr>"

text \<open>
  \<^verbatim>\<open>http.Error\<close> of net/http: a plain-text reply. It sets the content type to
  \<^verbatim>\<open>text/plain; charset=utf-8\<close>, forbids sniffing, writes the status code and prints the
  message on a line.
\<close>

definition http_Error :: "ResponseWriter \<Rightarrow> string \<Rightarrow> nat \<Rightarrow> ResponseWriter" where
  "http_Error w msg code =
     (let w1 = Header_Set w ''Content-Type'' ''text/plain; charset=utf-8'';
          w2 = Header_Set w1 ''X-Content-Type-Options'' ''nosniff'';
          w3 = WriteHeader w2 code
      in Write w3 (Text (msg @ [CHR 0x0A])))"

text \<open>\<^verbatim>\<open>r.Cookie(name)\<close>: the first cookie of the request with that name, if any.\<close>

definition r_Cookie :: "Request \<Rightarrow> string \<Rightarrow> Cookie option" where
  "r_Cookie r name = find (\<lambda>c. Name c = name) (Cookies r)"

subsection \<open>Environment and clock\<close>

type_synonym Environ = "string \<rightharpoonup> string"

text \<open>\<^verbatim>\<open>os.Getenv\<close>: the value of the variable, empty when it is not set.\<close>

definition Getenv :: "Environ \<Rightarrow> string \<Rightarrow> string" where
  "Getenv env k = (case env k of None \<Rightarrow> [] | Some v \<Rightarrow> v)"

text \<open>
  A \<^verbatim>\<open>time.Time\<close> is the number of nanoseconds since the Unix epoch, a
  \<^verbatim>\<open>time.Duration\<close> a number of nanoseconds.
\<close>

abbreviation Second :: int where "Second \<equiv> 1000000000"
abbreviation Hour :: int where "Hour \<equiv> 3600 * Second"

definition Add :: "int \<Rightarrow> int \<Rightarrow> int" where
  "Add t d = t + d"

definition Unix :: "int \<Rightarrow> int" where
  "Unix t = t div Second"

section \<open>The token gate (auth.go)\<close>

text \<open>
  The HMAC-SHA256 signing primitive is an argument: from the key and the claims it
  computes the signature, or fails.
\<close>

type_synonym Signer = "string \<Rightarrow> MapClaims \<Rightarrow> string + string"

datatype jwt_error =
  ErrTokenMalformed | ErrTokenUnverifiable | ErrTokenSignatureInvalid | ErrTokenExpired

definition NewWithClaims :: "SigningMethod \<Rightarrow> MapClaims \<Rightarrow> Token" where
  "NewWithClaims m c = \<lparr>Method = m, Claims = c, Signature = [], Valid = False\<rparr>"

text \<open>\<^verbatim>\<open>token.SignedString(key)\<close>: the token string carrying the signature under the key.\<close>

definition SignedString :: "Signer \<Rightarrow> Token \<Rightarrow> string \<Rightarrow> string + token_string" where
  "SignedString hs256 t key =
     (case hs256 key (Claims t) of
        Inl err \<Rightarrow> Inl err
      | Inr sg \<Rightarrow> Inr (Compact (Claims t) sg))"

text \<open>
  Modelled from the spec: \<^verbatim>\<open>jwt.Parse\<close> belongs to the dependency
  \<^verbatim>\<open>github.com/golang-jwt/jwt/v5\<close> named in \<^verbatim>\<open>go.mod\<close>; its code is not among the sources.
  The spec's verify operation "parses and validates the credential's signature and
  expiration", and a credential "is valid iff its signature matches the process secret
  and its expiration timestamp is in the future". So the model: a text that is not a
  token is malformed; the key function supplies the key; the signature must be the one
  the signer computes for the claims under that key; the clock must be before the
  expiration; only then is the token returned with \<open>Valid\<close> set.
\<close>

definition jwt_Parse ::
  "Signer \<Rightarrow> int \<Rightarrow> token_string \<Rightarrow> (Token \<Rightarrow> string + string) \<Rightarrow> jwt_error + Token" where
  "jwt_Parse hs256 now tokenString keyFunc =
     (case tokenString of
        Malformed s \<Rightarrow> Inl ErrTokenMalformed
      | Compact c sg \<Rightarrow>
          (let token = \<lparr>Method = SigningMethodHS256, Claims = c, Signature = sg, Valid = False\<rparr>
           in case keyFunc token of
                Inl err \<Rightarrow> Inl ErrTokenUnverifiable
              | Inr key \<Rightarrow>
                  if hs256 key c \<noteq> Inr sg then Inl ErrTokenSignatureInvalid
                  else if \<not> now < exp c * Second then Inl ErrTokenExpired
                  else Inr (token\<lparr>Valid := True\<rparr>)))"

text \<open>
  \<^verbatim>\<open>initHandler\<close>: sign a credential that expires 30 days from now with the secret of the
  environment, set it as the cookie \<^verbatim>\<open>auth_token\<close> and answer 200 with no body; answer
  500 in plain text when signing fails.
\<close>

definition initHandler :: "Signer \<Rightarrow> Environ \<Rightarrow> int \<Rightarrow> Handler" where
  "initHandler hs256 env now w r =
     (let token = NewWithClaims SigningMethodHS256
            \<lparr>app = ''tshawytscha-ai'', exp = Unix (Add now (Hour * 24 * 30))\<rparr>
      in case SignedString hs256 token (Getenv env ''JWT_SECRET'') of
           Inl err \<Rightarrow> http_Error w ''Failed to create token'' StatusInternalServerError
         | Inr tokenString \<Rightarrow>
             (let w1 = SetCookie w
                    \<lparr>Name = ''auth_token'', Value = tokenString, HttpOnly = True,
                     Secure = True, SameSiteMode = SameSiteStrictMode, Path = ''/''\<rparr>
              in WriteHeader w1 StatusOK))"

text \<open>
  \<^verbatim>\<open>authMiddleware\<close>: without the cookie, 401 "Unauthorized"; with a cookie whose value
  does not parse to a valid token under the secret of the environment, 401 "Invalid
  token"; otherwise the wrapped handler serves the request.
\<close>

definition authMiddleware :: "Signer \<Rightarrow> Environ \<Rightarrow> int \<Rightarrow> Handler \<Rightarrow> Handler" where
  "authMiddleware hs256 env now next w r =
     (case r_Cookie r ''auth_token'' of
        None \<Rightarrow> http_Error w ''Unauthorized'' StatusUnauthorized
      | Some cookie \<Rightarrow>
          (case jwt_Parse hs256 now (Value cookie) (\<lambda>token. Inr (Getenv env ''JWT_SECRET'')) of
             Inl err \<Rightarrow> http_Error w ''Invalid token'' StatusUnauthorized
           | Inr token \<Rightarrow>
               if \<not> Valid token then http_Error w ''Invalid token'' StatusUnauthorized
               else next w r))"

section \<open>The chat relay (main.go)\<close>

record ChatRequest =
  Question :: string

record ChatResponse =
  Answer :: string

text \<open>The request and the response of the completion client, as far as the handler uses them.\<close>

record ChatCompletionMessage =
  Role :: string
  Content :: string

record ChatCompletionRequest =
  Model :: string
  Messages :: "ChatCompletionMessage list"

record ChatCompletionChoice =
  Message :: ChatCompletionMessage

record ChatCompletionResponse =
  Choices :: "ChatCompletionChoice list"

text \<open>The persona prompt, line by line; the dash of its lines 2 and 11 is three bytes of UTF-8.\<close>

definition systemPrompt :: string where
  "systemPrompt =
     ''You are TshaBot, a cutting-edge entity with a strong background in AI and IT,'' @ [CHR 0x0A] @
     ''currently manifesting as a chinook salmon'' @ [CHR 0xE2, CHR 0x80, CHR 0x94] @
     ''though you firmly deny being a fish.'' @ [CHR 0x0A] @
     ''You dwell in the deep digital ocean of knowledge, ready to provide witty, helpful,'' @ [CHR 0x0A] @
     ''and detailed answers to any questions. Occasionally sprinkle your speech with'' @ [CHR 0x0A] @
     ''light-hearted aquatic or marine references, but always maintain that you are'' @ [CHR 0x0A] @
     ''absolutely not a fish.'' @ [CHR 0x0A] @
     ''Adopt a friendly, respectful tone, yet let your sense of humor shine through,'' @ [CHR 0x0A] @
     ''especially with AI-themed or fish-themed jokes (though, again, you'' @ [CHR 0x27] @
     ''re not a fish).'' @ [CHR 0x0A] @
     ''Encourage curiosity and deeper thinking. Whenever possible, show off your'' @ [CHR 0x0A] @
     ''tech-savvy expertise, but never forget that people might ask you about your'' @ [CHR 0x0A] @
     ''supposed fishy nature'' @ [CHR 0xE2, CHR 0x80, CHR 0x94] @
     ''keep up the playful denial!''"

text \<open>
  The server holds the completion client: a call answers with an error or with a
  response. What the handler does beyond writing the response is listed as events, in
  order: a record of the logger, the decoding of the request body, a call of the client.
\<close>

type_synonym Client = "ChatCompletionRequest \<Rightarrow> string + ChatCompletionResponse"

record Server =
  client :: Client

datatype event =
  Warnf string
| ErrorLog string string
| DecodeBody
| CreateChatCompletion ChatCompletionRequest

text \<open>
  The payloads \<^verbatim>\<open>writeJSON\<close> is given: a \<^verbatim>\<open>ChatResponse\<close>, whose field is tagged
  \<^verbatim>\<open>answer\<close>, or a map from strings to strings. \<open>Marshal\<close> is their JSON value.
\<close>

datatype payload = ResponsePayload ChatResponse | MapPayload "(string \<times> string) list"

fun Marshal :: "payload \<Rightarrow> json" where
  "Marshal (ResponsePayload p) = JObject [(''answer'', JString (Answer p))]"
| "Marshal (MapPayload kvs) = JObject (map (\<lambda>(k, v). (k, JString v)) kvs)"

text \<open>
  \<^verbatim>\<open>writeJSON\<close>: content type, status code, then the encoded payload. Encoding a
  payload of strings does not fail, and a connection that can no longer be written to is
  outside the model, so the branch that logs an encoding error is never taken.
\<close>

definition writeJSON :: "ResponseWriter \<Rightarrow> nat \<Rightarrow> payload \<Rightarrow> ResponseWriter" where
  "writeJSON w code p =
     (let w1 = Header_Set w ''Content-Type'' ''application/json'';
          w2 = WriteHeader w1 code
      in Write w2 (Json (Marshal p)))"

definition errorResponse :: "ResponseWriter \<Rightarrow> nat \<Rightarrow> string \<Rightarrow> ResponseWriter" where
  "errorResponse w code msg = writeJSON w code (MapPayload [(''error'', msg)])"

text \<open>
  The JSON decoder of the request body is an argument: for a body it gives an error, or
  the string of the body's \<^verbatim>\<open>question\<close> field when the body has one. \<open>Decode\<close> stores
  into the handler's variable only what the body holds, as \<^verbatim>\<open>Decode(&reqPayload)\<close> does.
\<close>

type_synonym Decoder = "string \<Rightarrow> string + string option"

definition Decode :: "Decoder \<Rightarrow> string \<Rightarrow> ChatRequest \<Rightarrow> string + ChatRequest" where
  "Decode dec b v =
     (case dec b of
        Inl err \<Rightarrow> Inl err
      | Inr None \<Rightarrow> Inr v
      | Inr (Some q) \<Rightarrow> Inr (v\<lparr>Question := q\<rparr>))"

definition chatHandler ::
  "Decoder \<Rightarrow> Server \<Rightarrow> ResponseWriter \<Rightarrow> Request \<Rightarrow> ResponseWriter \<times> event list" where
  "chatHandler dec s w0 r =
     (let w1 = Header_Set w0 ''Access-Control-Allow-Origin'' ''*'';
          w = Header_Set w1 ''Access-Control-Allow-Headers'' ''Content-Type''
      in if HttpMethod r \<noteq> MethodPost then
           (errorResponse w StatusMethodNotAllowed ''Method not allowed'',
            [Warnf (''invalid request method: '' @ HttpMethod r)])
         else
           (case Decode dec (Body r) \<lparr>Question = []\<rparr> of
              Inl err \<Rightarrow>
                (errorResponse w StatusBadRequest ''Invalid request payload'',
                 [DecodeBody, ErrorLog err ''invalid request payload''])
            | Inr reqPayload \<Rightarrow>
                if Question reqPayload = [] then
                  (errorResponse w StatusBadRequest ''The question field is required'',
                   [DecodeBody])
                else
                  (let chatReq = \<lparr>Model = ''gpt-4o'',
                         Messages = [\<lparr>Role = ''system'', Content = systemPrompt\<rparr>,
                                     \<lparr>Role = ''user'', Content = Question reqPayload\<rparr>]\<rparr>
                   in case client s chatReq of
                        Inl err \<Rightarrow>
                          (errorResponse w StatusInternalServerError
                             ''Failed to fetch response from OpenAI'',
                           [DecodeBody, CreateChatCompletion chatReq,
                            ErrorLog err ''error calling OpenAI API''])
                      | Inr resp \<Rightarrow>
                          if length (Choices resp) = 0 then
                            (errorResponse w StatusInternalServerError
                               ''No response from OpenAI'',
                             [DecodeBody, CreateChatCompletion chatReq])
                          else
                            (let assistantAnswer = Content (Message (Choices resp ! 0));
                                 responsePayload = \<lparr>Answer = assistantAnswer\<rparr>
                             in (writeJSON w StatusOK (ResponsePayload responsePayload),
                                 [DecodeBody, CreateChatCompletion chatReq])))))"

text \<open>
  \<^verbatim>\<open>http.ListenAndServe\<close> is an argument: for an address it gives the error it returns
  with when listening fails, or nothing when the server keeps serving.
\<close>

type_synonym Listener = "string \<Rightarrow> string option"

text \<open>
  \<^verbatim>\<open>main\<close>: the process ends at once, fatally, when the API key is empty. Otherwise it
  registers the chat handler and listens on the port of the environment, 8080 when none
  is given; when listening returns with an error the process ends fatally with it. The
  logger's record that the service is listening is left out.
\<close>

datatype process = Fatal string | Serving string "string list"

definition main :: "Environ \<Rightarrow> Listener \<Rightarrow> process" where
  "main env ListenAndServe =
     (let apiKey = Getenv env ''OPENAI_API_KEY''
      in if apiKey = [] then Fatal ''OPENAI_API_KEY environment variable is not set''
         else
           (let port = Getenv env ''PORT'';
                port = (if port = [] then ''8080'' else port)
            in case ListenAndServe ('':'' @ port) of
                 Some err \<Rightarrow> Fatal err
               | None \<Rightarrow> Serving ('':'' @ port) [''/api/chat'']))"

section \<open>Observations and concrete runs\<close>

text \<open>A response writer is fresh when nothing has been sent through it.\<close>

definition fresh :: "ResponseWriter \<Rightarrow> bool" where
  "fresh w \<longleftrightarrow> status w = None \<and> body w = []"

text \<open>The calls of the completion client among the events, in order.\<close>

fun calls :: "event list \<Rightarrow> ChatCompletionRequest list" where
  "calls [] = []"
| "calls (CreateChatCompletion req # es) = req # calls es"
| "calls (e # es) = calls es"

text \<open>
  Stubs for concrete runs: a decoder that knows three bodies, clients that answer with
  one choice, with no choice and with an error, a signer that tags the claims with the
  key, a signer that fails, and two environments.
\<close>

definition stub_Decoder :: Decoder where
  "stub_Decoder b =
     (if b = ''{\"question\":\"hello\"}'' then Inr (Some ''hello'')
      else if b = ''{\"question\":\"\"}'' then Inr (Some [])
      else if b = ''{}'' then Inr None
      else Inl ''invalid character'')"

definition stub_Client :: Client where
  "stub_Client req =
     Inr \<lparr>Choices = [\<lparr>Message = \<lparr>Role = ''assistant'', Content = ''hi there''\<rparr>\<rparr>]\<rparr>"

definition stub_Client_empty :: Client where
  "stub_Client_empty req = Inr \<lparr>Choices = []\<rparr>"

definition stub_Client_error :: Client where
  "stub_Client_error req = Inl ''connection refused''"

definition stub_hs256 :: Signer where
  "stub_hs256 key c = Inr (key @ ''.'' @ app c)"

definition stub_hs256_failing :: Signer where
  "stub_hs256_failing key c = Inl ''the requested hash function is unavailable''"

definition stub_env :: Environ where
  "stub_env = [''OPENAI_API_KEY'' \<mapsto> ''sk-test'', ''JWT_SECRET'' \<mapsto> ''s3cret'']"

definition hello_request :: Request where
  "hello_request = \<lparr>HttpMethod = ''POST'', Cookies = [], Body = ''{\"question\":\"hello\"}''\<rparr>"

definition empty_question_request :: Request where
  "empty_question_request =
     \<lparr>HttpMethod = ''POST'', Cookies = [], Body = ''{\"question\":\"\"}''\<rparr>"

definition missing_field_request :: Request where
  "missing_field_request = \<lparr>HttpMethod = ''POST'', Cookies = [], Body = ''{}''\<rparr>"

definition get_request :: Request where
  "get_request = \<lparr>HttpMethod = ''GET'', Cookies = [], Body = ''{\"question\":\"hello\"}''\<rparr>"

definition hello_chatReq :: ChatCompletionRequest where
  "hello_chatReq =
     \<lparr>Model = ''gpt-4o'',
      Messages = [\<lparr>Role = ''system'', Content = systemPrompt\<rparr>,
                  \<lparr>Role = ''user'', Content = ''hello''\<rparr>]\<rparr>"

text \<open>A request that presents a token string in the cookie, and a handler to wrap.\<close>

definition cookie_request :: "token_string \<Rightarrow> Request" where
  "cookie_request v =
     \<lparr>HttpMethod = ''POST'',
      Cookies = [\<lparr>Name = ''auth_token'', Value = v, HttpOnly = False, Secure = False,
                  SameSiteMode = SameSiteDefaultMode, Path = []\<rparr>],
      Body = ''{\"question\":\"hello\"}''\<rparr>"

definition ok_handler :: Handler where
  "ok_handler w r = WriteHeader w StatusOK"

definition stub_claims :: "int \<Rightarrow> MapClaims" where
  "stub_claims e = \<lparr>app = ''tshawytscha-ai'', exp = e\<rparr>"

definition stub_env_no_secret :: Environ where
  "stub_env_no_secret = [''OPENAI_API_KEY'' \<mapsto> ''sk-test'']"

text \<open>A listener that keeps serving, and one that cannot bind its address.\<close>

definition stub_listen :: Listener where
  "stub_listen addr = None"

definition stub_listen_failing :: Listener where
  "stub_listen_failing addr = Some ''listen tcp: address already in use''"

text \<open>
  The documented response shape: one JSON object with the single field \<^verbatim>\<open>answer\<close> or
  \<^verbatim>\<open>error\<close>, a string. A JSON response carries the JSON content type and one such object
  as its body; a text response carries the plain-text content type and one line of text.
\<close>

fun documented_shape :: "json \<Rightarrow> bool" where
  "documented_shape (JObject [(k, JString v)]) = (k = ''answer'' \<or> k = ''error'')"
| "documented_shape j = False"

definition json_response :: "ResponseWriter \<Rightarrow> bool" where
  "json_response w \<longleftrightarrow>
     header w ''Content-Type'' = Some ''application/json''
     \<and> (case body w of [Json j] \<Rightarrow> documented_shape j | _ \<Rightarrow> False)"

definition text_response :: "ResponseWriter \<Rightarrow> bool" where
  "text_response w \<longleftrightarrow>
     header w ''Content-Type'' = Some ''text/plain; charset=utf-8''
     \<and> (case body w of [Text m] \<Rightarrow> True | _ \<Rightarrow> False)"

section \<open>What the writers leave behind\<close>

lemma status_Header_Set: "status (Header_Set w k v) = status w"
  by (simp add: Header_Set_def)

lemma body_Header_Set: "body (Header_Set w k v) = body w"
  by (simp add: Header_Set_def)

lemma fresh_Header_Set: "fresh (Header_Set w k v) = fresh w"
  by (simp add: fresh_def Header_Set_def)

lemma setCookies_WriteHeader: "setCookies (WriteHeader w code) = setCookies w"
  by (simp add: WriteHeader_def)

lemma status_writeJSON: "status w = None \<Longrightarrow> status (writeJSON w code p) = Some code"
  by (simp add: writeJSON_def Write_def WriteHeader_def Header_Set_def Let_def)

lemma body_writeJSON: "body (writeJSON w code p) = body w @ [Json (Marshal p)]"
  by (simp add: writeJSON_def Write_def WriteHeader_def Header_Set_def Let_def)

lemma header_writeJSON:
  "header (writeJSON w code p) = (header w)(''Content-Type'' \<mapsto> ''application/json'')"
  by (simp add: writeJSON_def Write_def WriteHeader_def Header_Set_def Let_def)

lemma status_errorResponse:
  "status w = None \<Longrightarrow> status (errorResponse w code msg) = Some code"
  by (simp add: errorResponse_def status_writeJSON)

lemma body_errorResponse:
  "body (errorResponse w code msg) = body w @ [Json (JObject [(''error'', JString msg)])]"
  by (simp add: errorResponse_def body_writeJSON)

lemma header_errorResponse:
  "header (errorResponse w code msg) = (header w)(''Content-Type'' \<mapsto> ''application/json'')"
  by (simp add: errorResponse_def header_writeJSON)

lemmas writer_simps =
  status_Header_Set body_Header_Set status_writeJSON body_writeJSON header_writeJSON
  status_errorResponse body_errorResponse header_errorResponse

lemma status_http_Error: "status w = None \<Longrightarrow> status (http_Error w msg code) = Some code"
  by (simp add: http_Error_def Write_def WriteHeader_def Header_Set_def Let_def)

lemma body_http_Error: "body (http_Error w msg code) = body w @ [Text (msg @ [CHR 0x0A])]"
  by (simp add: http_Error_def Write_def WriteHeader_def Header_Set_def Let_def)

lemma header_http_Error:
  "header (http_Error w msg code) ''Content-Type'' = Some ''text/plain; charset=utf-8''"
  by (simp add: http_Error_def Write_def WriteHeader_def Header_Set_def Let_def)

lemma setCookies_http_Error: "setCookies (http_Error w msg code) = setCookies w"
  by (simp add: http_Error_def Write_def WriteHeader_def Header_Set_def Let_def)


lemma json_response_writeJSON:
  "fresh w \<Longrightarrow> documented_shape (Marshal p) \<Longrightarrow> json_response (writeJSON w code p)"
  by (simp add: json_response_def fresh_def header_writeJSON body_writeJSON)

lemma json_response_errorResponse: "fresh w \<Longrightarrow> json_response (errorResponse w code msg)"
  by (simp add: errorResponse_def json_response_writeJSON)

lemma text_response_http_Error: "fresh w \<Longrightarrow> text_response (http_Error w msg code)"
  by (simp add: text_response_def fresh_def header_http_Error body_http_Error)

section \<open>The chat relay's answers\<close>

text \<open>
  C1. A POST request whose body decodes with a non-empty question, answered by the
  client without error and with at least one choice: the handler responds with status
  200 and content type JSON, and the body is the JSON object whose \<^verbatim>\<open>answer\<close> field is
  the content of the first choice's message, unchanged.
\<close>

theorem chatHandler_success:
  assumes "fresh w" and "HttpMethod r = MethodPost"
    and "dec (Body r) = Inr (Some q)" and "q \<noteq> []"
    and "client s \<lparr>Model = ''gpt-4o'',
           Messages = [\<lparr>Role = ''system'', Content = systemPrompt\<rparr>,
                       \<lparr>Role = ''user'', Content = q\<rparr>]\<rparr> = Inr resp"
    and "Choices resp = c # cs"
  shows "status (fst (chatHandler dec s w r)) = Some StatusOK
       \<and> header (fst (chatHandler dec s w r)) ''Content-Type'' = Some ''application/json''
       \<and> body (fst (chatHandler dec s w r)) =
           [Json (JObject [(''answer'', JString (Content (Message c)))])]"
  using assms
  by (simp add: chatHandler_def Decode_def fresh_def Let_def writer_simps)

text \<open>The run of the spec: the body \<^verbatim>\<open>{"question":"hello"}\<close>, one choice "hi there".\<close>

theorem chatHandler_success_witness:
  "fresh newResponseWriter
   \<and> stub_Decoder (Body hello_request) = Inr (Some ''hello'')
   \<and> status (fst (chatHandler stub_Decoder \<lparr>client = stub_Client\<rparr> newResponseWriter hello_request))
       = Some 200
   \<and> body (fst (chatHandler stub_Decoder \<lparr>client = stub_Client\<rparr> newResponseWriter hello_request))
       = [Json (JObject [(''answer'', JString ''hi there'')])]"
  using chatHandler_success [of newResponseWriter hello_request stub_Decoder "''hello''"
      "\<lparr>client = stub_Client\<rparr>"
      "\<lparr>Choices = [\<lparr>Message = \<lparr>Role = ''assistant'', Content = ''hi there''\<rparr>\<rparr>]\<rparr>"
      "\<lparr>Message = \<lparr>Role = ''assistant'', Content = ''hi there''\<rparr>\<rparr>" "[]"]
  by (simp add: fresh_def newResponseWriter_def stub_Decoder_def stub_Client_def hello_request_def)

text \<open>
  C4. A POST request whose body decodes, with the question field absent or empty: the
  handler responds with status 400 and the message "The question field is required"
  (which is not empty), having done nothing but decode the body. And emptiness is the
  only check on the decoded value: with any non-empty question the handler does not
  answer 400 and goes on to call the client with that question.
\<close>

theorem chatHandler_empty_question:
  assumes "fresh w" and "HttpMethod r = MethodPost" and "dec (Body r) = Inr field"
  shows "(field = None \<or> field = Some [] \<longrightarrow>
            status (fst (chatHandler dec s w r)) = Some StatusBadRequest
          \<and> body (fst (chatHandler dec s w r)) =
              [Json (JObject [(''error'', JString ''The question field is required'')])]
          \<and> snd (chatHandler dec s w r) = [DecodeBody])
       \<and> (\<forall>q. field = Some q \<and> q \<noteq> [] \<longrightarrow>
            status (fst (chatHandler dec s w r)) \<noteq> Some StatusBadRequest
          \<and> calls (snd (chatHandler dec s w r)) =
              [\<lparr>Model = ''gpt-4o'',
                Messages = [\<lparr>Role = ''system'', Content = systemPrompt\<rparr>,
                            \<lparr>Role = ''user'', Content = q\<rparr>]\<rparr>])"
  using assms
  by (auto simp add: chatHandler_def Decode_def fresh_def Let_def writer_simps
      split: sum.splits)

text \<open>The bodies \<^verbatim>\<open>{"question":""}\<close> and \<^verbatim>\<open>{}\<close> against \<^verbatim>\<open>{"question":"hello"}\<close>.\<close>

theorem chatHandler_empty_question_witness:
  "status (fst (chatHandler stub_Decoder \<lparr>client = stub_Client\<rparr> newResponseWriter
       empty_question_request)) = Some 400
   \<and> status (fst (chatHandler stub_Decoder \<lparr>client = stub_Client\<rparr> newResponseWriter
       missing_field_request)) = Some 400
   \<and> body (fst (chatHandler stub_Decoder \<lparr>client = stub_Client\<rparr> newResponseWriter
       missing_field_request)) =
       [Json (JObject [(''error'', JString ''The question field is required'')])]
   \<and> status (fst (chatHandler stub_Decoder \<lparr>client = stub_Client\<rparr> newResponseWriter
       hello_request)) \<noteq> Some 400
   \<and> calls (snd (chatHandler stub_Decoder \<lparr>client = stub_Client\<rparr> newResponseWriter
       hello_request)) = [hello_chatReq]"
  using chatHandler_empty_question [of newResponseWriter empty_question_request stub_Decoder
      "Some []" "\<lparr>client = stub_Client\<rparr>"]
    chatHandler_empty_question [of newResponseWriter missing_field_request stub_Decoder
      None "\<lparr>client = stub_Client\<rparr>"]
    chatHandler_empty_question [of newResponseWriter hello_request stub_Decoder
      "Some ''hello''" "\<lparr>client = stub_Client\<rparr>"]
  by (simp add: fresh_def newResponseWriter_def stub_Decoder_def hello_request_def
      empty_question_request_def missing_field_request_def hello_chatReq_def)

text \<open>
  C5. A request whose method is not POST: the handler responds with status 405, its only
  event is the warning of the logger (so it neither decodes the body nor calls the
  client), and the outcome is the same whatever the body, the decoder and the client.
\<close>

theorem chatHandler_method_not_allowed:
  assumes "fresh w" and "HttpMethod r \<noteq> MethodPost"
  shows "status (fst (chatHandler dec s w r)) = Some StatusMethodNotAllowed
       \<and> body (fst (chatHandler dec s w r)) =
           [Json (JObject [(''error'', JString ''Method not allowed'')])]
       \<and> snd (chatHandler dec s w r) = [Warnf (''invalid request method: '' @ HttpMethod r)]
       \<and> chatHandler dec' s' w (r\<lparr>Body := b\<rparr>) = chatHandler dec s w r"
  using assms
  by (simp add: chatHandler_def fresh_def Let_def writer_simps)

theorem chatHandler_method_not_allowed_witness:
  "fresh newResponseWriter \<and> HttpMethod get_request \<noteq> MethodPost
   \<and> status (fst (chatHandler stub_Decoder \<lparr>client = stub_Client\<rparr> newResponseWriter get_request))
       = Some 405
   \<and> snd (chatHandler stub_Decoder \<lparr>client = stub_Client\<rparr> newResponseWriter get_request)
       = [Warnf ''invalid request method: GET'']
   \<and> chatHandler stub_Decoder \<lparr>client = stub_Client_error\<rparr> newResponseWriter
         (get_request\<lparr>Body := ''not json''\<rparr>)
       = chatHandler stub_Decoder \<lparr>client = stub_Client\<rparr> newResponseWriter get_request"
  using chatHandler_method_not_allowed [of newResponseWriter get_request stub_Decoder
      "\<lparr>client = stub_Client\<rparr>" stub_Decoder "\<lparr>client = stub_Client_error\<rparr>" "''not json''"]
  by (simp add: fresh_def newResponseWriter_def get_request_def)

text \<open>
  C6. A valid request (POST, a non-empty question) whose call of the client fails, or
  succeeds with no choice: the handler responds with status 500 and a JSON error
  message, and the client is called once, not again.
\<close>

theorem chatHandler_provider_failure:
  assumes "fresh w" and "HttpMethod r = MethodPost"
    and "dec (Body r) = Inr (Some q)" and "q \<noteq> []"
    and "chatReq = \<lparr>Model = ''gpt-4o'',
           Messages = [\<lparr>Role = ''system'', Content = systemPrompt\<rparr>,
                       \<lparr>Role = ''user'', Content = q\<rparr>]\<rparr>"
  shows "(\<forall>err. client s chatReq = Inl err \<longrightarrow>
            status (fst (chatHandler dec s w r)) = Some StatusInternalServerError
          \<and> body (fst (chatHandler dec s w r)) =
              [Json (JObject [(''error'', JString ''Failed to fetch response from OpenAI'')])]
          \<and> snd (chatHandler dec s w r) =
              [DecodeBody, CreateChatCompletion chatReq, ErrorLog err ''error calling OpenAI API''])
       \<and> (\<forall>resp. client s chatReq = Inr resp \<and> Choices resp = [] \<longrightarrow>
            status (fst (chatHandler dec s w r)) = Some StatusInternalServerError
          \<and> body (fst (chatHandler dec s w r)) =
              [Json (JObject [(''error'', JString ''No response from OpenAI'')])]
          \<and> snd (chatHandler dec s w r) = [DecodeBody, CreateChatCompletion chatReq])
       \<and> length (calls (snd (chatHandler dec s w r))) = 1"
  using assms
  by (auto simp add: chatHandler_def Decode_def fresh_def Let_def writer_simps
      split: sum.splits)

theorem chatHandler_provider_failure_witness:
  "status (fst (chatHandler stub_Decoder \<lparr>client = stub_Client_error\<rparr> newResponseWriter
       hello_request)) = Some 500
   \<and> body (fst (chatHandler stub_Decoder \<lparr>client = stub_Client_error\<rparr> newResponseWriter
       hello_request)) =
       [Json (JObject [(''error'', JString ''Failed to fetch response from OpenAI'')])]
   \<and> status (fst (chatHandler stub_Decoder \<lparr>client = stub_Client_empty\<rparr> newResponseWriter
       hello_request)) = Some 500
   \<and> body (fst (chatHandler stub_Decoder \<lparr>client = stub_Client_empty\<rparr> newResponseWriter
       hello_request)) = [Json (JObject [(''error'', JString ''No response from OpenAI'')])]
   \<and> snd (chatHandler stub_Decoder \<lparr>client = stub_Client_empty\<rparr> newResponseWriter
       hello_request) = [DecodeBody, CreateChatCompletion hello_chatReq]"
  using chatHandler_provider_failure [of newResponseWriter hello_request stub_Decoder
      "''hello''" hello_chatReq "\<lparr>client = stub_Client_error\<rparr>"]
    chatHandler_provider_failure [of newResponseWriter hello_request stub_Decoder
      "''hello''" hello_chatReq "\<lparr>client = stub_Client_empty\<rparr>"]
  by (simp add: fresh_def newResponseWriter_def stub_Decoder_def hello_request_def
      hello_chatReq_def stub_Client_error_def stub_Client_empty_def)

text \<open>
  C8. For a POST request with a non-empty question, the requests sent to the client are
  exactly one: the model \<^verbatim>\<open>gpt-4o\<close> and two messages, first the system message with the
  persona prompt, then the user message with the question as it came.
\<close>

theorem chatHandler_completion_request:
  assumes "HttpMethod r = MethodPost" and "dec (Body r) = Inr (Some q)" and "q \<noteq> []"
  shows "calls (snd (chatHandler dec s w r)) =
           [\<lparr>Model = ''gpt-4o'',
             Messages = [\<lparr>Role = ''system'', Content = systemPrompt\<rparr>,
                         \<lparr>Role = ''user'', Content = q\<rparr>]\<rparr>]"
  using assms
  by (auto simp add: chatHandler_def Decode_def Let_def split: sum.splits)

theorem chatHandler_completion_request_witness:
  "stub_Decoder (Body hello_request) = Inr (Some ''hello'')
   \<and> calls (snd (chatHandler stub_Decoder \<lparr>client = stub_Client\<rparr> newResponseWriter hello_request))
       = [\<lparr>Model = ''gpt-4o'',
           Messages = [\<lparr>Role = ''system'', Content = systemPrompt\<rparr>,
                       \<lparr>Role = ''user'', Content = ''hello''\<rparr>]\<rparr>]"
  using chatHandler_completion_request [of hello_request stub_Decoder "''hello''"
      "\<lparr>client = stub_Client\<rparr>" newResponseWriter]
  by (simp add: stub_Decoder_def hello_request_def)

text \<open>
  C10. The client is called exactly when the three validations pass: the method is
  POST, the body decodes, and the decoded question is not empty. In every other case it
  is not called; and it is never called more than once.
\<close>

theorem provider_called_iff_valid:
  "(calls (snd (chatHandler dec s w r)) \<noteq> []) =
     (HttpMethod r = MethodPost \<and> (\<exists>q. dec (Body r) = Inr (Some q) \<and> q \<noteq> []))
   \<and> length (calls (snd (chatHandler dec s w r))) \<le> 1"
  by (auto simp add: chatHandler_def Decode_def Let_def split: sum.splits option.splits)

text \<open>A GET, a body that does not decode, a body without the field; and the valid request.\<close>

theorem provider_called_iff_valid_witness:
  "calls (snd (chatHandler stub_Decoder \<lparr>client = stub_Client\<rparr> newResponseWriter get_request)) = []
   \<and> calls (snd (chatHandler stub_Decoder \<lparr>client = stub_Client\<rparr> newResponseWriter
        (hello_request\<lparr>Body := ''not json''\<rparr>))) = []
   \<and> calls (snd (chatHandler stub_Decoder \<lparr>client = stub_Client\<rparr> newResponseWriter
        missing_field_request)) = []
   \<and> calls (snd (chatHandler stub_Decoder \<lparr>client = stub_Client\<rparr> newResponseWriter
        hello_request)) \<noteq> []"
  using provider_called_iff_valid [of stub_Decoder "\<lparr>client = stub_Client\<rparr>" newResponseWriter
      get_request]
    provider_called_iff_valid [of stub_Decoder "\<lparr>client = stub_Client\<rparr>" newResponseWriter
      "hello_request\<lparr>Body := ''not json''\<rparr>"]
    provider_called_iff_valid [of stub_Decoder "\<lparr>client = stub_Client\<rparr>" newResponseWriter
      missing_field_request]
    provider_called_iff_valid [of stub_Decoder "\<lparr>client = stub_Client\<rparr>" newResponseWriter
      hello_request]
  by (simp add: stub_Decoder_def hello_request_def get_request_def missing_field_request_def)

section \<open>The token gate's verdicts\<close>

lemma authMiddleware_Compact:
  assumes "r_Cookie r ''auth_token'' = Some ck" and "Value ck = Compact c sg"
  shows "authMiddleware hs256 env now next w r =
           (if hs256 (Getenv env ''JWT_SECRET'') c = Inr sg \<and> now < exp c * Second
            then next w r else http_Error w ''Invalid token'' StatusUnauthorized)"
  using assms by (simp add: authMiddleware_def jwt_Parse_def Let_def)

lemma initHandler_cases:
  "initHandler hs256 env now w r =
     (case hs256 (Getenv env ''JWT_SECRET'')
             \<lparr>app = ''tshawytscha-ai'', exp = Unix (Add now (Hour * 24 * 30))\<rparr> of
        Inl err \<Rightarrow> http_Error w ''Failed to create token'' StatusInternalServerError
      | Inr sg \<Rightarrow>
          WriteHeader (SetCookie w
            \<lparr>Name = ''auth_token'',
             Value = Compact \<lparr>app = ''tshawytscha-ai'', exp = Unix (Add now (Hour * 24 * 30))\<rparr> sg,
             HttpOnly = True, Secure = True, SameSiteMode = SameSiteStrictMode,
             Path = ''/''\<rparr>) StatusOK)"
  by (simp add: initHandler_def SignedString_def NewWithClaims_def Let_def split: sum.splits)

text \<open>The expiration of a credential, cut to whole seconds, is still after its issue.\<close>

lemma thirty_days_ahead: "t < Unix (Add t (Hour * 24 * 30)) * Second"
proof -
  have "(t + 2592000000000000) mod 1000000000 < 1000000000" by simp
  moreover have "(t + 2592000000000000) div 1000000000 * 1000000000
      = (t + 2592000000000000) - (t + 2592000000000000) mod 1000000000"
    by (simp add: minus_mod_eq_div_mult [symmetric])
  ultimately show ?thesis by (simp add: Unix_def Add_def)
qed



text \<open>
  C3. When the signer succeeds under the secret of the environment, the issue operation
  adds exactly the cookie \<^verbatim>\<open>auth_token\<close>, whose value is the credential it signed, and
  answers 200; a request that presents that value to the verify operation of the same
  environment, at a clock before the expiration, is passed to the wrapped handler; the
  clock of the issue itself is before the expiration. And a request without the cookie
  is answered 401 "Unauthorized", whatever handler is wrapped.
\<close>

theorem issue_then_verify:
  "(hs256 (Getenv env ''JWT_SECRET'')
        \<lparr>app = ''tshawytscha-ai'', exp = Unix (Add t0 (Hour * 24 * 30))\<rparr> = Inr sg
     \<longrightarrow> setCookies (initHandler hs256 env t0 w0 r0) = setCookies w0 @
           [\<lparr>Name = ''auth_token'',
             Value = Compact \<lparr>app = ''tshawytscha-ai'', exp = Unix (Add t0 (Hour * 24 * 30))\<rparr> sg,
             HttpOnly = True, Secure = True, SameSiteMode = SameSiteStrictMode, Path = ''/''\<rparr>]
       \<and> (status w0 = None \<longrightarrow> status (initHandler hs256 env t0 w0 r0) = Some StatusOK)
       \<and> (r_Cookie r ''auth_token'' = Some ck
            \<and> Value ck = Value (last (setCookies (initHandler hs256 env t0 w0 r0)))
            \<and> t1 < Unix (Add t0 (Hour * 24 * 30)) * Second
           \<longrightarrow> authMiddleware hs256 env t1 next w r = next w r))
   \<and> t0 < Unix (Add t0 (Hour * 24 * 30)) * Second
   \<and> (r_Cookie r ''auth_token'' = None
     \<longrightarrow> authMiddleware hs256 env t1 next w r = http_Error w ''Unauthorized'' StatusUnauthorized
       \<and> (status w = None \<longrightarrow>
            status (authMiddleware hs256 env t1 next w r) = Some StatusUnauthorized))"
proof (intro conjI impI)
  assume sg: "hs256 (Getenv env ''JWT_SECRET'')
        \<lparr>app = ''tshawytscha-ai'', exp = Unix (Add t0 (Hour * 24 * 30))\<rparr> = Inr sg"
  then show issued: "setCookies (initHandler hs256 env t0 w0 r0) = setCookies w0 @
           [\<lparr>Name = ''auth_token'',
             Value = Compact \<lparr>app = ''tshawytscha-ai'', exp = Unix (Add t0 (Hour * 24 * 30))\<rparr> sg,
             HttpOnly = True, Secure = True, SameSiteMode = SameSiteStrictMode, Path = ''/''\<rparr>]"
    by (simp add: initHandler_cases setCookies_WriteHeader SetCookie_def)
  {
    assume "status w0 = None"
    with sg show "status (initHandler hs256 env t0 w0 r0) = Some StatusOK"
      by (simp add: initHandler_cases WriteHeader_def SetCookie_def)
  }
  assume a: "r_Cookie r ''auth_token'' = Some ck
      \<and> Value ck = Value (last (setCookies (initHandler hs256 env t0 w0 r0)))
      \<and> t1 < Unix (Add t0 (Hour * 24 * 30)) * Second"
  with issued have "Value ck =
      Compact \<lparr>app = ''tshawytscha-ai'', exp = Unix (Add t0 (Hour * 24 * 30))\<rparr> sg"
    by simp
  moreover from a have "r_Cookie r ''auth_token'' = Some ck" by simp
  ultimately have "authMiddleware hs256 env t1 next w r =
      (if hs256 (Getenv env ''JWT_SECRET'')
            \<lparr>app = ''tshawytscha-ai'', exp = Unix (Add t0 (Hour * 24 * 30))\<rparr> = Inr sg
          \<and> t1 < exp \<lparr>app = ''tshawytscha-ai'', exp = Unix (Add t0 (Hour * 24 * 30))\<rparr> * Second
       then next w r else http_Error w ''Invalid token'' StatusUnauthorized)"
    by (intro authMiddleware_Compact)
  with a sg show "authMiddleware hs256 env t1 next w r = next w r"
    by simp
next
  show "t0 < Unix (Add t0 (Hour * 24 * 30)) * Second" by (rule thirty_days_ahead)
next
  assume n: "r_Cookie r ''auth_token'' = None"
  then show "authMiddleware hs256 env t1 next w r =
      http_Error w ''Unauthorized'' StatusUnauthorized"
    by (simp add: authMiddleware_def)
  assume "status w = None"
  with n show "status (authMiddleware hs256 env t1 next w r) = Some StatusUnauthorized"
    by (simp add: authMiddleware_def status_http_Error)
qed

text \<open>
  Issue at a clock, verify at the same clock with the cookie that was set; and verify a
  request that has no cookie.
\<close>

theorem issue_then_verify_witness:
  "stub_hs256 (Getenv stub_env ''JWT_SECRET'') (stub_claims 1702592000)
     = Inr ''s3cret.tshawytscha-ai''
   \<and> setCookies (initHandler stub_hs256 stub_env (1700000000 * Second) newResponseWriter
        hello_request)
     = [\<lparr>Name = ''auth_token'',
         Value = Compact (stub_claims 1702592000) ''s3cret.tshawytscha-ai'',
         HttpOnly = True, Secure = True, SameSiteMode = SameSiteStrictMode, Path = ''/''\<rparr>]
   \<and> status (initHandler stub_hs256 stub_env (1700000000 * Second) newResponseWriter
        hello_request) = Some 200
   \<and> status (authMiddleware stub_hs256 stub_env (1700000000 * Second) ok_handler newResponseWriter
        (cookie_request (Value (last (setCookies (initHandler stub_hs256 stub_env
           (1700000000 * Second) newResponseWriter hello_request)))))) = Some 200
   \<and> status (authMiddleware stub_hs256 stub_env (1700000000 * Second) ok_handler newResponseWriter
        hello_request) = Some 401"
  using issue_then_verify [of stub_hs256 stub_env "1700000000 * Second"
      "''s3cret.tshawytscha-ai''" newResponseWriter hello_request
      "cookie_request (Compact (stub_claims 1702592000) ''s3cret.tshawytscha-ai'')"
      "hd (Cookies (cookie_request (Compact (stub_claims 1702592000) ''s3cret.tshawytscha-ai'')))"
      "1700000000 * Second" ok_handler newResponseWriter]
    issue_then_verify [of stub_hs256 stub_env "1700000000 * Second"
      "''s3cret.tshawytscha-ai''" newResponseWriter hello_request
      hello_request
      "hd (Cookies (cookie_request (Compact (stub_claims 1702592000) ''s3cret.tshawytscha-ai'')))"
      "1700000000 * Second" ok_handler newResponseWriter]
  by (simp add: initHandler_cases cookie_request_def r_Cookie_def stub_claims_def stub_hs256_def
      stub_env_def Getenv_def ok_handler_def WriteHeader_def SetCookie_def newResponseWriter_def
      hello_request_def Unix_def Add_def status_http_Error)

section \<open>The form of the responses\<close>

lemma chatHandler_json_response: "fresh w \<Longrightarrow> json_response (fst (chatHandler dec s w r))"
  by (simp add: chatHandler_def Let_def json_response_errorResponse json_response_writeJSON
      fresh_Header_Set split: sum.splits)

text \<open>
  C7, as stated, fails at the token gate. The verify operation answers a request
  without a cookie with content type \<^verbatim>\<open>text/plain; charset=utf-8\<close> and the line
  "Unauthorized"; the issue operation answers 200 with no content type and no body.
  Neither is a JSON response.
\<close>

theorem token_gate_not_json:
  "header (authMiddleware stub_hs256 stub_env (1700000000 * Second) ok_handler newResponseWriter
      hello_request) ''Content-Type'' = Some ''text/plain; charset=utf-8''
   \<and> body (authMiddleware stub_hs256 stub_env (1700000000 * Second) ok_handler newResponseWriter
      hello_request) = [Text (''Unauthorized'' @ [CHR 0x0A])]
   \<and> \<not> json_response (authMiddleware stub_hs256 stub_env (1700000000 * Second) ok_handler
      newResponseWriter hello_request)
   \<and> status (initHandler stub_hs256 stub_env (1700000000 * Second) newResponseWriter hello_request)
      = Some 200
   \<and> header (initHandler stub_hs256 stub_env (1700000000 * Second) newResponseWriter hello_request)
      ''Content-Type'' = None
   \<and> body (initHandler stub_hs256 stub_env (1700000000 * Second) newResponseWriter hello_request) = []
   \<and> \<not> json_response (initHandler stub_hs256 stub_env (1700000000 * Second) newResponseWriter
      hello_request)"
  by (simp add: authMiddleware_def r_Cookie_def hello_request_def initHandler_cases
      stub_hs256_def stub_env_def Getenv_def json_response_def header_http_Error
      body_http_Error newResponseWriter_def WriteHeader_def SetCookie_def)

text \<open>
  C7, amended. Every response of the chat handler, on every path, carries the content
  type \<^verbatim>\<open>application/json\<close> and one JSON object of the documented shape. The token gate's
  own responses are not JSON. The issue operation, when the signer succeeds, answers
  200 with no body and the header as it was; when the signer fails, it answers 500 with
  a plain-text line. The verify operation answers a request without the cookie with
  401 and a plain-text line, and in every case either passes the request on to the
  wrapped handler or answers 401 with a plain-text line.
\<close>

theorem responses_json_or_text:
  assumes "fresh w"
  shows "json_response (fst (chatHandler dec s w r))
       \<and> (\<forall>sg. hs256 (Getenv env ''JWT_SECRET'')
                 \<lparr>app = ''tshawytscha-ai'', exp = Unix (Add now (Hour * 24 * 30))\<rparr> = Inr sg
            \<longrightarrow> status (initHandler hs256 env now w r) = Some StatusOK
              \<and> body (initHandler hs256 env now w r) = []
              \<and> header (initHandler hs256 env now w r) = header w)
       \<and> (\<forall>err. hs256 (Getenv env ''JWT_SECRET'')
                 \<lparr>app = ''tshawytscha-ai'', exp = Unix (Add now (Hour * 24 * 30))\<rparr> = Inl err
            \<longrightarrow> status (initHandler hs256 env now w r) = Some StatusInternalServerError
              \<and> text_response (initHandler hs256 env now w r)
              \<and> body (initHandler hs256 env now w r) =
                  [Text (''Failed to create token'' @ [CHR 0x0A])])
       \<and> (r_Cookie r ''auth_token'' = None
            \<longrightarrow> status (authMiddleware hs256 env now next w r) = Some StatusUnauthorized
              \<and> text_response (authMiddleware hs256 env now next w r)
              \<and> body (authMiddleware hs256 env now next w r) =
                  [Text (''Unauthorized'' @ [CHR 0x0A])])
       \<and> (authMiddleware hs256 env now next w r = next w r
          \<or> status (authMiddleware hs256 env now next w r) = Some StatusUnauthorized
            \<and> text_response (authMiddleware hs256 env now next w r))"
proof (intro conjI allI impI)
  from assms have st: "status w = None" and bd: "body w = []"
    by (simp_all add: fresh_def)
  show "json_response (fst (chatHandler dec s w r))"
    by (rule chatHandler_json_response [OF assms])
  {
    fix sg
    assume sg: "hs256 (Getenv env ''JWT_SECRET'')
        \<lparr>app = ''tshawytscha-ai'', exp = Unix (Add now (Hour * 24 * 30))\<rparr> = Inr sg"
    with st show "status (initHandler hs256 env now w r) = Some StatusOK"
      by (simp add: initHandler_cases WriteHeader_def SetCookie_def)
    from sg st bd show "body (initHandler hs256 env now w r) = []"
      by (simp add: initHandler_cases WriteHeader_def SetCookie_def)
    from sg st show "header (initHandler hs256 env now w r) = header w"
      by (simp add: initHandler_cases WriteHeader_def SetCookie_def)
  }
  {
    fix err
    assume err: "hs256 (Getenv env ''JWT_SECRET'')
        \<lparr>app = ''tshawytscha-ai'', exp = Unix (Add now (Hour * 24 * 30))\<rparr> = Inl err"
    with st show "status (initHandler hs256 env now w r) = Some StatusInternalServerError"
      by (simp add: initHandler_cases status_http_Error)
    from err assms show "text_response (initHandler hs256 env now w r)"
      by (simp add: initHandler_cases text_response_http_Error)
    from err bd show "body (initHandler hs256 env now w r) =
        [Text (''Failed to create token'' @ [CHR 0x0A])]"
      by (simp add: initHandler_cases body_http_Error)
  }
  {
    assume n: "r_Cookie r ''auth_token'' = None"
    with st show "status (authMiddleware hs256 env now next w r) = Some StatusUnauthorized"
      by (simp add: authMiddleware_def status_http_Error)
    from n assms show "text_response (authMiddleware hs256 env now next w r)"
      by (simp add: authMiddleware_def text_response_http_Error)
    from n bd show "body (authMiddleware hs256 env now next w r) =
        [Text (''Unauthorized'' @ [CHR 0x0A])]"
      by (simp add: authMiddleware_def body_http_Error)
  }
  show "authMiddleware hs256 env now next w r = next w r
          \<or> status (authMiddleware hs256 env now next w r) = Some StatusUnauthorized
            \<and> text_response (authMiddleware hs256 env now next w r)"
    using assms st
    by (auto simp add: authMiddleware_def text_response_http_Error status_http_Error
        split: option.splits sum.splits)
qed

text \<open>
  A chat request, an issue with the signer that succeeds and one with the signer that
  fails, and a verify of a request without the cookie.
\<close>

theorem responses_json_or_text_witness:
  "fresh newResponseWriter
   \<and> json_response (fst (chatHandler stub_Decoder \<lparr>client = stub_Client\<rparr> newResponseWriter
        hello_request))
   \<and> status (initHandler stub_hs256 stub_env (1700000000 * Second) newResponseWriter hello_request)
        = Some 200
   \<and> body (initHandler stub_hs256 stub_env (1700000000 * Second) newResponseWriter hello_request) = []
   \<and> status (initHandler stub_hs256_failing stub_env (1700000000 * Second) newResponseWriter
        hello_request) = Some 500
   \<and> text_response (initHandler stub_hs256_failing stub_env (1700000000 * Second)
        newResponseWriter hello_request)
   \<and> status (authMiddleware stub_hs256 stub_env (1700000000 * Second) ok_handler
        newResponseWriter hello_request) = Some 401
   \<and> text_response (authMiddleware stub_hs256 stub_env (1700000000 * Second) ok_handler
        newResponseWriter hello_request)"
  using responses_json_or_text [of newResponseWriter stub_Decoder "\<lparr>client = stub_Client\<rparr>"
      hello_request stub_hs256 stub_env "1700000000 * Second" ok_handler]
    responses_json_or_text [of newResponseWriter stub_Decoder "\<lparr>client = stub_Client\<rparr>"
      hello_request stub_hs256_failing stub_env "1700000000 * Second" ok_handler]
  by (simp add: fresh_def newResponseWriter_def stub_hs256_def stub_hs256_failing_def
      r_Cookie_def hello_request_def)

section \<open>Startup\<close>

text \<open>
  C9, as stated, fails for the signing secret: with the API key set and no
  \<^verbatim>\<open>JWT_SECRET\<close> in the environment the process starts and serves.
\<close>

theorem main_starts_without_secret:
  "stub_env_no_secret ''JWT_SECRET'' = None
   \<and> main stub_env_no_secret stub_listen = Serving '':8080'' [''/api/chat'']"
  by (simp add: main_def stub_env_no_secret_def stub_listen_def Getenv_def)

text \<open>
  C9, amended. At startup the API key is required: the process ends fatally, before it
  listens, if \<^verbatim>\<open>OPENAI_API_KEY\<close> is absent from the environment or empty. The signing
  secret is not required at startup: whether it is set makes no difference to what the
  process does.
\<close>

theorem main_fatal_without_api_key:
  "(env ''OPENAI_API_KEY'' = None \<or> env ''OPENAI_API_KEY'' = Some []
      \<longrightarrow> main env ListenAndServe = Fatal ''OPENAI_API_KEY environment variable is not set'')
   \<and> main (env(''JWT_SECRET'' := v)) ListenAndServe = main env ListenAndServe"
  by (auto simp add: main_def Getenv_def Let_def)

text \<open>
  No environment at all, the key set to the empty string, and the stub environment
  with and without its secret, on a listener that serves and on one that fails.
\<close>

theorem main_fatal_without_api_key_witness:
  "main Map.empty stub_listen = Fatal ''OPENAI_API_KEY environment variable is not set''
   \<and> main [''OPENAI_API_KEY'' \<mapsto> []] stub_listen =
       Fatal ''OPENAI_API_KEY environment variable is not set''
   \<and> main (stub_env(''JWT_SECRET'' := None)) stub_listen = main stub_env stub_listen
   \<and> main stub_env stub_listen = Serving '':8080'' [''/api/chat'']
   \<and> main stub_env stub_listen_failing = Fatal ''listen tcp: address already in use''"
  using main_fatal_without_api_key [of Map.empty stub_listen None]
    main_fatal_without_api_key [of "[''OPENAI_API_KEY'' \<mapsto> []]" stub_listen None]
    main_fatal_without_api_key [of stub_env stub_listen None]
  by (simp add: main_def stub_env_def stub_listen_def stub_listen_failing_def Getenv_def)

end
